theory Spec2Isabelle
  imports Complex_Main
begin

section \<open>Data model of \<^verbatim>\<open>autonomous.py\<close>\<close>

text \<open>
  The class \<^verbatim>\<open>AutonomousCar\<close> keeps its state in attributes of \<^verbatim>\<open>self\<close> and in the
  scene-graph node \<^verbatim>\<open>self.car\<close>. The model is a record of exactly the attributes that the
  methods read or write, passed in and returned updated.

  Numbers: Python's \<^verbatim>\<open>int\<close> and \<^verbatim>\<open>float\<close> values are modelled as mathematical reals, so
  rounding of floating-point arithmetic is idealised away. Texture sizes and pixel indices
  are Python integers and are modelled as \<^typ>\<open>int\<close>.

  The camera and the scene graph are not modelled: no method reads them back.
  Text written by \<^verbatim>\<open>print\<close> is appended to the field \<open>printed\<close>.
\<close>

text \<open>
  The sampled image (\<^verbatim>\<open>PNMImage\<close>): its size and its three channel readers. The code calls
  the channel readers only at indices inside the image. The attribute \<^verbatim>\<open>map_texture\<close> is
  \<^verbatim>\<open>None\<close> or such an image; the test \<^verbatim>\<open>if not self.map_texture\<close> succeeds for
  \<^verbatim>\<open>None\<close> only.
\<close>

record texture =
  getXSize :: int
  getYSize :: int
  getRed :: "int \<Rightarrow> int \<Rightarrow> real"
  getGreen :: "int \<Rightarrow> int \<Rightarrow> real"
  getBlue :: "int \<Rightarrow> int \<Rightarrow> real"

record app =
  car_x :: real
  car_y :: real
  car_z :: real
  car_h :: real
  map_texture :: "texture option"
  speed :: real
  steering_angle :: real
  manual_mode :: bool
  autonomous_steering_correction :: real
  printed :: "string list"

text \<open>
  The movement parameters are assigned once in \<^verbatim>\<open>__init__\<close> and never again, so they are
  constants of the model.
\<close>

definition max_forward_speed :: real where
  "max_forward_speed = 20"

definition max_reverse_speed :: real where
  "max_reverse_speed = - 10"

definition acceleration_rate :: real where
  "acceleration_rate = 2 / 10"

definition autonomous_speed :: real where
  "autonomous_speed = 10"

text \<open>
  The state at the end of \<^verbatim>\<open>__init__\<close>: the car at \<open>(-3, 8, 0.05)\<close> with heading 90,
  standing still in manual mode. Whether the ground model has a texture is decided by the
  asset, so the loaded image is a parameter.
\<close>

definition init :: "texture option \<Rightarrow> app" where
  "init tex = \<lparr> car_x = - 3, car_y = 8, car_z = 5 / 100, car_h = 90,
                map_texture = tex, speed = 0, steering_angle = 0,
                manual_mode = True, autonomous_steering_correction = 0,
                printed = [] \<rparr>"

section \<open>Library functions of Python used by the code\<close>

text \<open>\<^verbatim>\<open>math.radians\<close>: degrees to radians.\<close>

definition radians :: "real \<Rightarrow> real" where
  "radians d = d * pi / 180"

text \<open>\<^verbatim>\<open>int(x)\<close> on a float: the fractional part is dropped, rounding toward zero.\<close>

definition py_int :: "real \<Rightarrow> int" where
  "py_int r = (if 0 \<le> r then \<lfloor>r\<rfloor> else \<lceil>r\<rceil>)"

section \<open>Control callbacks\<close>

definition accelerate :: "app \<Rightarrow> real \<Rightarrow> app" where
  "accelerate s increment =
     (if manual_mode s then
        (let s1 = s\<lparr>speed := speed s + increment * acceleration_rate\<rparr>
         in s1\<lparr>speed := max max_reverse_speed (min (speed s1) max_forward_speed)\<rparr>)
      else s)"

definition stop_accelerate :: "app \<Rightarrow> app" where
  "stop_accelerate s = s\<lparr>speed := 0\<rparr>"

definition steer :: "app \<Rightarrow> real \<Rightarrow> app" where
  "steer s direction =
     (if manual_mode s \<and> speed s \<noteq> 0 then s\<lparr>steering_angle := direction * 15\<rparr> else s)"

definition stop_turn :: "app \<Rightarrow> app" where
  "stop_turn s = s\<lparr>steering_angle := 0\<rparr>"

definition toggle_mode :: "app \<Rightarrow> app" where
  "toggle_mode s =
     (let s1 = s\<lparr>manual_mode := \<not> manual_mode s\<rparr>;
          s2 = s1\<lparr>printed := printed s1 @
                 [''Switched to '' @ (if manual_mode s1 then ''Manual'' else ''Autonomous'') @ '' Mode'']\<rparr>
      in if \<not> manual_mode s2
         then s2\<lparr>speed := 0, steering_angle := 0, autonomous_steering_correction := 0\<rparr>
         else s2)"

section \<open>The per-frame task\<close>

text \<open>
  The manual branch of \<^verbatim>\<open>update_car\<close>: the heading is written first, and the
  translation is computed from the local variable holding the new heading.
\<close>

definition manual_step :: "app \<Rightarrow> real \<Rightarrow> app" where
  "manual_step s dt =
     (let heading = car_h s + steering_angle s * dt;
          s1 = s\<lparr>car_h := heading\<rparr>;
          dx = - sin (radians heading) * speed s1 * dt;
          dy = cos (radians heading) * speed s1 * dt
      in s1\<lparr>car_x := car_x s1 + dx, car_y := car_y s1 + dy, car_z := car_z s1\<rparr>)"

definition run_autonomous_logic :: "app \<Rightarrow> real \<Rightarrow> app" where
  "run_autonomous_logic s dt =
     (let heading = car_h s + autonomous_steering_correction s;
          s1 = s\<lparr>car_h := heading\<rparr>;
          dx = - sin (radians heading) * autonomous_speed * dt;
          dy = cos (radians heading) * autonomous_speed * dt
      in s1\<lparr>car_x := car_x s1 + dx, car_y := car_y s1 + dy, car_z := car_z s1\<rparr>)"

text \<open>The first statement of \<^verbatim>\<open>update_car\<close>: the branch on the mode.\<close>

definition integrate :: "app \<Rightarrow> real \<Rightarrow> app" where
  "integrate s dt = (if manual_mode s then manual_step s dt else run_autonomous_logic s dt)"

text \<open>The conversion of a world coordinate to a pixel index, as the code computes it.\<close>

definition tex_coord :: "real \<Rightarrow> int \<Rightarrow> int" where
  "tex_coord c n = py_int ((c + 10) * (real_of_int n / 20))"

text \<open>
  \<^verbatim>\<open>is_car_on_track\<close> is a method of the application object; the model returns its result
  together with the state it leaves behind.
\<close>

definition is_car_on_track :: "app \<Rightarrow> bool \<times> app" where
  "is_car_on_track s =
     (case map_texture s of
        None \<Rightarrow> (True, s)
      | Some tex \<Rightarrow>
          (let u = tex_coord (car_x s) (getXSize tex);
               v = tex_coord (car_y s) (getYSize tex)
           in if 0 \<le> u \<and> u < getXSize tex \<and> 0 \<le> v \<and> v < getYSize tex
              then (let r = getRed tex u v; g = getGreen tex u v; b = getBlue tex u v
                    in (r < 10 \<and> g < 10 \<and> b < 10, s))
              else (False, s)))"

text \<open>The second statement of \<^verbatim>\<open>update_car\<close>: the track check and the correction.\<close>

definition track_correction :: "app \<Rightarrow> app" where
  "track_correction s =
     (let (on_track, s1) = is_car_on_track s
      in if \<not> on_track
         then (let s2 = s1\<lparr>printed := printed s1 @ [''Car off the track! Correcting.'']\<rparr>
               in s2\<lparr>autonomous_steering_correction := (if car_x s2 < 0 then 1 else - 1)\<rparr>)
         else s1)"

text \<open>
  \<^verbatim>\<open>check_boundaries\<close> reads the position once into \<^verbatim>\<open>car_pos\<close>; all four tests look
  at that copy.
\<close>

definition check_boundaries :: "app \<Rightarrow> app" where
  "check_boundaries s =
     (let px = car_x s; py = car_y s;
          s1 = (if px < - 50 then s\<lparr>car_x := - 50\<rparr> else s);
          s2 = (if px > 50 then s1\<lparr>car_x := 50\<rparr> else s1);
          s3 = (if py < - 50 then s2\<lparr>car_y := - 50\<rparr> else s2);
          s4 = (if py > 50 then s3\<lparr>car_y := 50\<rparr> else s3)
      in s4)"

text \<open>One frame; \<open>dt\<close> is the value of \<^verbatim>\<open>globalClock.getDt()\<close>.\<close>

definition update_car :: "app \<Rightarrow> real \<Rightarrow> app" where
  "update_car s dt = check_boundaries (track_correction (integrate s dt))"

section \<open>Runs of the program\<close>

text \<open>
  Everything that happens after start-up is a key event calling one of the callbacks, or
  a frame calling \<^verbatim>\<open>update_car\<close>.
\<close>

datatype event =
    Accelerate real
  | StopAccelerate
  | Steer real
  | StopTurn
  | ToggleMode
  | Tick real

fun step :: "app \<Rightarrow> event \<Rightarrow> app" where
  "step s (Accelerate d) = accelerate s d"
| "step s StopAccelerate = stop_accelerate s"
| "step s (Steer d) = steer s d"
| "step s StopTurn = stop_turn s"
| "step s ToggleMode = toggle_mode s"
| "step s (Tick dt) = update_car s dt"

definition run :: "app \<Rightarrow> event list \<Rightarrow> app" where
  "run s evs = foldl step s evs"

text \<open>The range of the speed.\<close>

definition speed_in_range :: "app \<Rightarrow> bool" where
  "speed_in_range s = (max_reverse_speed \<le> speed s \<and> speed s \<le> max_forward_speed)"

section \<open>The coordinate mapping as the specification words it\<close>

text \<open>
  The specification describes the pixel index as a floor:
  \<^verbatim>\<open>u := floor((x + 10) * textureWidth / 20)\<close>. This definition follows those words; it is
  compared below with \<open>tex_coord\<close>, which follows the code.
\<close>

definition spec_tex_coord :: "real \<Rightarrow> int \<Rightarrow> int" where
  "spec_tex_coord c n = \<lfloor>(c + 10) * real_of_int n / 20\<rfloor>"

section \<open>Concrete images\<close>

text \<open>Two images of 20 by 20 pixels, one black and one white.\<close>

definition black20 :: texture where
  "black20 = \<lparr> getXSize = 20, getYSize = 20,
               getRed = (\<lambda>u v. 0), getGreen = (\<lambda>u v. 0), getBlue = (\<lambda>u v. 0) \<rparr>"

definition white20 :: texture where
  "white20 = \<lparr> getXSize = 20, getYSize = 20,
               getRed = (\<lambda>u v. 255), getGreen = (\<lambda>u v. 255), getBlue = (\<lambda>u v. 255) \<rparr>"

section \<open>Frame lemmas\<close>

lemma is_car_on_track_state: "snd (is_car_on_track s) = s"
  by (simp add: is_car_on_track_def Let_def split: option.split)

lemma check_boundaries_fields:
  "speed (check_boundaries s) = speed s"
  "car_h (check_boundaries s) = car_h s"
  "manual_mode (check_boundaries s) = manual_mode s"
  "steering_angle (check_boundaries s) = steering_angle s"
  "autonomous_steering_correction (check_boundaries s) = autonomous_steering_correction s"
  by (simp_all add: check_boundaries_def Let_def)

lemma track_correction_fields:
  "speed (track_correction s) = speed s"
  "car_h (track_correction s) = car_h s"
  "car_x (track_correction s) = car_x s"
  "car_y (track_correction s) = car_y s"
  "manual_mode (track_correction s) = manual_mode s"
  "steering_angle (track_correction s) = steering_angle s"
  using is_car_on_track_state [of s]
  by (cases "is_car_on_track s"; simp add: track_correction_def Let_def)+

lemma integrate_fields:
  "speed (integrate s dt) = speed s"
  "manual_mode (integrate s dt) = manual_mode s"
  "steering_angle (integrate s dt) = steering_angle s"
  "autonomous_steering_correction (integrate s dt) = autonomous_steering_correction s"
  "map_texture (integrate s dt) = map_texture s"
  by (simp_all add: integrate_def manual_step_def run_autonomous_logic_def Let_def)

lemma update_car_speed: "speed (update_car s dt) = speed s"
  by (simp add: update_car_def check_boundaries_fields track_correction_fields integrate_fields)

lemma update_car_heading: "car_h (update_car s dt) = car_h (integrate s dt)"
  by (simp add: update_car_def check_boundaries_fields track_correction_fields)

lemma check_boundaries_xy:
  "car_x (check_boundaries s) = max (- 50) (min 50 (car_x s))"
  "car_y (check_boundaries s) = max (- 50) (min 50 (car_y s))"
  by (simp_all add: check_boundaries_def Let_def)

lemma track_correction_eq:
  "track_correction s =
     (if fst (is_car_on_track s) then s
      else s\<lparr>printed := printed s @ [''Car off the track! Correcting.''],
             autonomous_steering_correction := (if car_x s < 0 then 1 else - 1)\<rparr>)"
  using is_car_on_track_state [of s]
  by (cases "is_car_on_track s") (simp add: track_correction_def Let_def)

section \<open>The speed stays in its range\<close>

lemma step_speed_in_range: "speed_in_range s \<Longrightarrow> speed_in_range (step s e)"
  by (cases e)
     (auto simp: speed_in_range_def accelerate_def stop_accelerate_def steer_def stop_turn_def
        toggle_mode_def update_car_speed max_reverse_speed_def max_forward_speed_def Let_def)

lemma run_speed_in_range: "speed_in_range s \<Longrightarrow> speed_in_range (run s evs)"
  unfolding run_def
  by (induction evs arbitrary: s) (simp_all add: step_speed_in_range)

lemma init_speed_in_range: "speed_in_range (init tex)"
  by (simp add: speed_in_range_def init_def max_reverse_speed_def max_forward_speed_def)

text \<open>
  Claim C1, as stated, also says that \<^verbatim>\<open>accelerate(delta)\<close> sets the speed to the clamped
  sum. In autonomous mode the guard \<^verbatim>\<open>if self.manual_mode\<close> skips the assignment: after the
  first mode toggle the speed is 0, and \<^verbatim>\<open>accelerate(1)\<close> leaves it at 0, where the clamped
  sum is 0.2.
\<close>

theorem accelerate_autonomous_counterexample:
  "speed (accelerate (toggle_mode (init None)) 1)
     \<noteq> max (- 10) (min (speed (toggle_mode (init None)) + 1 * (2 / 10)) 20)"
  by (simp add: accelerate_def toggle_mode_def init_def Let_def)

text \<open>
  Claim C1, amended: after every sequence of key events and frames from the initial state
  the speed lies in \<open>[-10, 20]\<close>; in manual mode \<^verbatim>\<open>accelerate(delta)\<close> sets the speed to
  \<open>speed + delta * 0.2\<close> clamped into \<open>[-10, 20]\<close>, and in autonomous mode it changes
  nothing.
\<close>

theorem speed_clamp_invariant:
  "- 10 \<le> speed (run (init tex) evs) \<and> speed (run (init tex) evs) \<le> 20
   \<and> (manual_mode s \<longrightarrow>
        speed (accelerate s delta) = max (- 10) (min (speed s + delta * (2 / 10)) 20))
   \<and> (\<not> manual_mode s \<longrightarrow> accelerate s delta = s)"
proof -
  have "speed_in_range (run (init tex) evs)"
    by (rule run_speed_in_range [OF init_speed_in_range])
  then have "- 10 \<le> speed (run (init tex) evs) \<and> speed (run (init tex) evs) \<le> 20"
    by (simp add: speed_in_range_def max_reverse_speed_def max_forward_speed_def)
  moreover have "manual_mode s \<longrightarrow>
      speed (accelerate s delta) = max (- 10) (min (speed s + delta * (2 / 10)) 20)"
    by (simp add: accelerate_def Let_def max_reverse_speed_def max_forward_speed_def
          acceleration_rate_def)
  moreover have "\<not> manual_mode s \<longrightarrow> accelerate s delta = s"
    by (simp add: accelerate_def)
  ultimately show ?thesis by blast
qed

theorem speed_clamp_invariant_witness:
  "- 10 \<le> speed (run (init None) [Accelerate 150, Tick 1, Accelerate (- 400), ToggleMode])
   \<and> speed (run (init None) [Accelerate 150, Tick 1, Accelerate (- 400), ToggleMode]) \<le> 20
   \<and> manual_mode (init None) \<and> speed (accelerate (init None) 150) = 20
   \<and> \<not> manual_mode (toggle_mode (init None))
   \<and> accelerate (toggle_mode (init None)) 1 = toggle_mode (init None)"
  using speed_clamp_invariant
          [of None "[Accelerate 150, Tick 1, Accelerate (- 400), ToggleMode]" "init None" 150]
        speed_clamp_invariant [of None "[]" "toggle_mode (init None)" 1]
  by (simp add: toggle_mode_def init_def Let_def)

section \<open>The position stays in the square\<close>

text \<open>
  Claim C2: after every frame, in either mode, both coordinates of the car lie in
  \<open>[-50, 50]\<close>; each is the clamp of the coordinate that the integration produced, and the
  clamp does not depend on the other coordinate, on the mode or on the track check.
\<close>

theorem position_clamp_after_tick:
  "- 50 \<le> car_x (update_car s dt) \<and> car_x (update_car s dt) \<le> 50
   \<and> - 50 \<le> car_y (update_car s dt) \<and> car_y (update_car s dt) \<le> 50
   \<and> car_x (update_car s dt) = max (- 50) (min 50 (car_x (integrate s dt)))
   \<and> car_y (update_car s dt) = max (- 50) (min 50 (car_y (integrate s dt)))"
proof -
  let ?t = "track_correction (integrate s dt)"
  have frame: "car_x ?t = car_x (integrate s dt)" "car_y ?t = car_y (integrate s dt)"
    by (simp_all add: track_correction_fields)
  have x: "car_x (update_car s dt) = max (- 50) (min 50 (car_x (integrate s dt)))"
    unfolding update_car_def by (simp add: check_boundaries_xy frame)
  have y: "car_y (update_car s dt) = max (- 50) (min 50 (car_y (integrate s dt)))"
    unfolding update_car_def by (simp add: check_boundaries_xy frame)
  have "- 50 \<le> car_x (update_car s dt) \<and> car_x (update_car s dt) \<le> 50"
    unfolding x by simp
  moreover have "- 50 \<le> car_y (update_car s dt) \<and> car_y (update_car s dt) \<le> 50"
    unfolding y by simp
  ultimately show ?thesis using x y by simp
qed

section \<open>The track check\<close>

text \<open>
  Claim C3: the specification gives the pixel index as a floor, so that every position left
  of or below the image has a negative index and is off-track. The code converts with
  \<^verbatim>\<open>int\<close>, which rounds toward zero, and so folds the strip of one pixel's width below
  the lower edge into index 0. On a black image 20 pixels wide, the position \<open>x = -10.5\<close>
  has floor index \<open>-1\<close>, yet the code computes index 0, passes its own guard
  \<^verbatim>\<open>0 <= u\<close>, reads the pixel and answers on-track. At the upper edge the code is exact:
  \<open>x = 10.5\<close> gives index 20 and the answer off-track. The code falls short of the claim
  here; this theorem records what it does at that input.
\<close>

theorem track_check_below_lower_edge:
  "spec_tex_coord (car_x ((init (Some black20))\<lparr>car_x := - 21 / 2, car_y := 0\<rparr>)) (getXSize black20) = - 1
   \<and> tex_coord (car_x ((init (Some black20))\<lparr>car_x := - 21 / 2, car_y := 0\<rparr>)) (getXSize black20) = 0
   \<and> fst (is_car_on_track ((init (Some black20))\<lparr>car_x := - 21 / 2, car_y := 0\<rparr>))
   \<and> tex_coord (car_x ((init (Some black20))\<lparr>car_x := 21 / 2, car_y := 0\<rparr>)) (getXSize black20) = 20
   \<and> \<not> fst (is_car_on_track ((init (Some black20))\<lparr>car_x := 21 / 2, car_y := 0\<rparr>))"
  by (simp add: spec_tex_coord_def is_car_on_track_def tex_coord_def py_int_def init_def
        black20_def ceiling_def Let_def)

text \<open>
  Claim C8: without an image the check answers on-track at every position; with an image
  and both pixel indices inside it, the check answers on-track exactly when the red, the
  green and the blue value of that pixel are each below 10.
\<close>

theorem track_check_fail_open:
  "(map_texture s = None \<longrightarrow> fst (is_car_on_track s))
   \<and> (map_texture s = Some tex
        \<and> 0 \<le> tex_coord (car_x s) (getXSize tex)
        \<and> tex_coord (car_x s) (getXSize tex) < getXSize tex
        \<and> 0 \<le> tex_coord (car_y s) (getYSize tex)
        \<and> tex_coord (car_y s) (getYSize tex) < getYSize tex
      \<longrightarrow> fst (is_car_on_track s) =
            (getRed tex (tex_coord (car_x s) (getXSize tex)) (tex_coord (car_y s) (getYSize tex)) < 10
             \<and> getGreen tex (tex_coord (car_x s) (getXSize tex)) (tex_coord (car_y s) (getYSize tex)) < 10
             \<and> getBlue tex (tex_coord (car_x s) (getXSize tex)) (tex_coord (car_y s) (getYSize tex)) < 10))"
  by (simp add: is_car_on_track_def Let_def)

theorem track_check_fail_open_witness:
  "map_texture ((init None)\<lparr>car_x := 1000\<rparr>) = None
   \<and> fst (is_car_on_track ((init None)\<lparr>car_x := 1000\<rparr>))
   \<and> map_texture (init (Some black20)) = Some black20
   \<and> tex_coord (car_x (init (Some black20))) (getXSize black20) = 7
   \<and> tex_coord (car_y (init (Some black20))) (getYSize black20) = 18
   \<and> fst (is_car_on_track (init (Some black20)))
   \<and> \<not> fst (is_car_on_track (init (Some (black20\<lparr>getBlue := (\<lambda>u v. 200)\<rparr>))))"
  using track_check_fail_open [of "(init None)\<lparr>car_x := 1000\<rparr>" black20]
        track_check_fail_open [of "init (Some black20)" black20]
        track_check_fail_open
          [of "init (Some (black20\<lparr>getBlue := (\<lambda>u v. 200)\<rparr>))" "black20\<lparr>getBlue := (\<lambda>u v. 200)\<rparr>"]
  by (simp add: init_def black20_def tex_coord_def py_int_def)

text \<open>
  Claim C10: \<^verbatim>\<open>is_car_on_track\<close> leaves the whole state as it found it, so in particular
  the position, the heading, the speed, the steering angle, the mode and the correction;
  the write on an off-track answer is made by its caller, \<^verbatim>\<open>update_car\<close>.
\<close>

theorem is_car_on_track_read_only:
  "snd (is_car_on_track s) = s
   \<and> track_correction s =
       (if fst (is_car_on_track s) then s
        else s\<lparr>printed := printed s @ [''Car off the track! Correcting.''],
               autonomous_steering_correction := (if car_x s < 0 then 1 else - 1)\<rparr>)"
  by (simp add: is_car_on_track_state track_correction_eq)

section \<open>The mode toggle and the steering\<close>

text \<open>
  Claim C4: a toggle out of manual mode yields autonomous mode with speed, steering angle
  and correction all 0, whatever they were before; a toggle out of autonomous mode changes
  the mode and nothing else of the vehicle. Both print one line.
\<close>

theorem toggle_mode_reset:
  "(manual_mode s \<longrightarrow>
      toggle_mode s = s\<lparr>manual_mode := False,
                        printed := printed s @ [''Switched to Autonomous Mode''],
                        speed := 0, steering_angle := 0,
                        autonomous_steering_correction := 0\<rparr>)
   \<and> (\<not> manual_mode s \<longrightarrow>
      toggle_mode s = s\<lparr>manual_mode := True,
                        printed := printed s @ [''Switched to Manual Mode'']\<rparr>)"
  by (simp add: toggle_mode_def Let_def)

theorem toggle_mode_reset_witness:
  "manual_mode ((init None)\<lparr>speed := 7, steering_angle := 15, autonomous_steering_correction := 1\<rparr>)
   \<and> speed (toggle_mode ((init None)\<lparr>speed := 7, steering_angle := 15, autonomous_steering_correction := 1\<rparr>)) = 0
   \<and> steering_angle (toggle_mode ((init None)\<lparr>speed := 7, steering_angle := 15, autonomous_steering_correction := 1\<rparr>)) = 0
   \<and> autonomous_steering_correction (toggle_mode ((init None)\<lparr>speed := 7, steering_angle := 15, autonomous_steering_correction := 1\<rparr>)) = 0
   \<and> \<not> manual_mode ((init None)\<lparr>manual_mode := False, autonomous_steering_correction := 1\<rparr>)
   \<and> autonomous_steering_correction (toggle_mode ((init None)\<lparr>manual_mode := False, autonomous_steering_correction := 1\<rparr>)) = 1
   \<and> manual_mode (toggle_mode ((init None)\<lparr>manual_mode := False, autonomous_steering_correction := 1\<rparr>))"
  using toggle_mode_reset [of "(init None)\<lparr>speed := 7, steering_angle := 15, autonomous_steering_correction := 1\<rparr>"]
        toggle_mode_reset [of "(init None)\<lparr>manual_mode := False, autonomous_steering_correction := 1\<rparr>"]
  by (simp add: init_def)

text \<open>
  Claim C9: in manual mode with a speed other than 0, \<^verbatim>\<open>steer(direction)\<close> sets the
  steering angle to \<open>direction * 15\<close> and changes nothing else; in autonomous mode, and at
  speed 0, it changes nothing at all.
\<close>

theorem steer_gating:
  "(manual_mode s \<and> speed s \<noteq> 0 \<longrightarrow> steer s direction = s\<lparr>steering_angle := direction * 15\<rparr>)
   \<and> (\<not> manual_mode s \<or> speed s = 0 \<longrightarrow> steer s direction = s)"
  by (auto simp: steer_def)

theorem steer_gating_witness:
  "manual_mode ((init None)\<lparr>speed := 2\<rparr>) \<and> speed ((init None)\<lparr>speed := 2\<rparr>) \<noteq> 0
   \<and> steering_angle (steer ((init None)\<lparr>speed := 2\<rparr>) (- 1)) = - 15
   \<and> speed (init None) = 0
   \<and> steer (init None) 1 = init None
   \<and> \<not> manual_mode ((init None)\<lparr>speed := 2, manual_mode := False\<rparr>)
   \<and> steer ((init None)\<lparr>speed := 2, manual_mode := False\<rparr>) 1
       = (init None)\<lparr>speed := 2, manual_mode := False\<rparr>"
  using steer_gating [of "(init None)\<lparr>speed := 2\<rparr>" "- 1"]
        steer_gating [of "init None" 1]
        steer_gating [of "(init None)\<lparr>speed := 2, manual_mode := False\<rparr>" 1]
  by (simp add: init_def)

section \<open>The integration step\<close>

lemma update_car_position:
  "car_x (update_car s dt) = max (- 50) (min 50 (car_x (integrate s dt)))"
  "car_y (update_car s dt) = max (- 50) (min 50 (car_y (integrate s dt)))"
  by (simp_all add: update_car_def check_boundaries_xy track_correction_fields)

lemma manual_step_eq:
  "manual_step s dt =
     s\<lparr>car_h := car_h s + steering_angle s * dt,
       car_x := car_x s + - sin (radians (car_h s + steering_angle s * dt)) * speed s * dt,
       car_y := car_y s + cos (radians (car_h s + steering_angle s * dt)) * speed s * dt\<rparr>"
  by (simp add: manual_step_def Let_def)


text \<open>
  Claim C5, as stated, says that one manual tick with heading 0, speed 10, steering angle 0
  and \<open>dt = 1\<close> leaves the car at the old position plus \<open>(0, 10)\<close>. The tick ends with the
  boundary clamp: from \<open>y = 45\<close> the translation reaches 55 and the tick leaves the car at
  \<open>y = 50\<close>.
\<close>

theorem manual_tick_clamped_counterexample:
  "manual_mode ((init None)\<lparr>car_h := 0, speed := 10, car_y := 45\<rparr>)
   \<and> car_h ((init None)\<lparr>car_h := 0, speed := 10, car_y := 45\<rparr>) = 0
   \<and> speed ((init None)\<lparr>car_h := 0, speed := 10, car_y := 45\<rparr>) = 10
   \<and> steering_angle ((init None)\<lparr>car_h := 0, speed := 10, car_y := 45\<rparr>) = 0
   \<and> car_y (update_car ((init None)\<lparr>car_h := 0, speed := 10, car_y := 45\<rparr>) 1) = 50
   \<and> car_y (update_car ((init None)\<lparr>car_h := 0, speed := 10, car_y := 45\<rparr>) 1)
       \<noteq> car_y ((init None)\<lparr>car_h := 0, speed := 10, car_y := 45\<rparr>) + 10"
  by (simp add: update_car_position integrate_def manual_step_eq init_def radians_def)

text \<open>
  Claim C5, amended: in manual mode one tick first sets the heading to
  \<open>heading + steering_angle * dt\<close> and then moves the car by
  \<open>dx = - sin (radians heading') * speed * dt\<close> and \<open>dy = cos (radians heading') * speed * dt\<close>,
  where \<open>heading'\<close> is the heading just written, not the one before; the same tick then
  clamps each coordinate into \<open>[-50, 50]\<close>, so after the tick the heading is \<open>heading'\<close> and
  the position is \<open>(clamp (x + dx), clamp (y + dy))\<close>. With heading 0, speed 10, steering
  angle 0 and \<open>dt = 1\<close> the position after the tick is the old position plus \<open>(0, 10)\<close>
  whenever that point lies in the square.
\<close>

theorem manual_tick_heading_first:
  assumes "manual_mode s"
  shows "integrate s dt =
           s\<lparr>car_h := car_h s + steering_angle s * dt,
             car_x := car_x s + - sin (radians (car_h s + steering_angle s * dt)) * speed s * dt,
             car_y := car_y s + cos (radians (car_h s + steering_angle s * dt)) * speed s * dt\<rparr>
         \<and> car_h (update_car s dt) = car_h s + steering_angle s * dt
         \<and> car_x (update_car s dt) =
             max (- 50) (min 50
               (car_x s + - sin (radians (car_h s + steering_angle s * dt)) * speed s * dt))
         \<and> car_y (update_car s dt) =
             max (- 50) (min 50
               (car_y s + cos (radians (car_h s + steering_angle s * dt)) * speed s * dt))
         \<and> (car_h s = 0 \<and> speed s = 10 \<and> steering_angle s = 0
              \<and> - 50 \<le> car_x s \<and> car_x s \<le> 50 \<and> - 50 \<le> car_y s + 10 \<and> car_y s + 10 \<le> 50
            \<longrightarrow> car_x (update_car s 1) = car_x s \<and> car_y (update_car s 1) = car_y s + 10)"
proof -
  have step: "integrate s dt =
      s\<lparr>car_h := car_h s + steering_angle s * dt,
        car_x := car_x s + - sin (radians (car_h s + steering_angle s * dt)) * speed s * dt,
        car_y := car_y s + cos (radians (car_h s + steering_angle s * dt)) * speed s * dt\<rparr>"
    for dt
    using assms by (simp add: integrate_def manual_step_eq)
  have h: "car_h (update_car s dt) = car_h s + steering_angle s * dt"
    by (simp add: update_car_heading step)
  have x: "car_x (update_car s dt) =
      max (- 50) (min 50
        (car_x s + - sin (radians (car_h s + steering_angle s * dt)) * speed s * dt))"
    for dt
    by (simp add: update_car_position step)
  have y: "car_y (update_car s dt) =
      max (- 50) (min 50
        (car_y s + cos (radians (car_h s + steering_angle s * dt)) * speed s * dt))"
    for dt
    by (simp add: update_car_position step)
  have special: "car_h s = 0 \<and> speed s = 10 \<and> steering_angle s = 0
      \<and> - 50 \<le> car_x s \<and> car_x s \<le> 50 \<and> - 50 \<le> car_y s + 10 \<and> car_y s + 10 \<le> 50
      \<longrightarrow> car_x (update_car s 1) = car_x s \<and> car_y (update_car s 1) = car_y s + 10"
    by (simp add: x y radians_def)
  from step h x y special show ?thesis by blast
qed

theorem manual_tick_heading_first_witness:
  "manual_mode ((init None)\<lparr>car_h := 0, speed := 10\<rparr>)
   \<and> car_x (update_car ((init None)\<lparr>car_h := 0, speed := 10\<rparr>) 1) = - 3
   \<and> car_y (update_car ((init None)\<lparr>car_h := 0, speed := 10\<rparr>) 1) = 18
   \<and> manual_mode ((init None)\<lparr>car_h := 0, speed := 10, steering_angle := 90\<rparr>)
   \<and> car_h (update_car ((init None)\<lparr>car_h := 0, speed := 10, steering_angle := 90\<rparr>) 1) = 90
   \<and> car_x (update_car ((init None)\<lparr>car_h := 0, speed := 10, steering_angle := 90\<rparr>) 1) = - 13
   \<and> car_y (update_car ((init None)\<lparr>car_h := 0, speed := 10, steering_angle := 90\<rparr>) 1) = 8"
  using manual_tick_heading_first [of "(init None)\<lparr>car_h := 0, speed := 10\<rparr>" 1]
        manual_tick_heading_first
          [of "(init None)\<lparr>car_h := 0, speed := 10, steering_angle := 90\<rparr>" 1]
  by (simp add: init_def radians_def)




section \<open>The correction after an off-track answer\<close>

text \<open>
  Claim C7: in a frame whose position after the integration is off-track, the correction
  becomes 1 if that position has \<open>x < 0\<close> and \<open>-1\<close> otherwise, also at \<open>x = 0\<close>, in manual
  and in autonomous mode alike; in a frame whose position is on-track the correction
  stays what it was.
\<close>

theorem off_track_correction_sign:
  "(\<not> fst (is_car_on_track (integrate s dt)) \<longrightarrow>
      autonomous_steering_correction (update_car s dt) =
        (if car_x (integrate s dt) < 0 then 1 else - 1))
   \<and> (fst (is_car_on_track (integrate s dt)) \<longrightarrow>
      autonomous_steering_correction (update_car s dt) = autonomous_steering_correction s)"
proof (cases "fst (is_car_on_track (integrate s dt))")
  case True
  then have "track_correction (integrate s dt) = integrate s dt"
    by (simp add: track_correction_eq)
  then have "autonomous_steering_correction (update_car s dt) = autonomous_steering_correction s"
    by (simp add: update_car_def check_boundaries_fields integrate_fields)
  with True show ?thesis by simp
next
  case False
  then have "autonomous_steering_correction (track_correction (integrate s dt)) =
      (if car_x (integrate s dt) < 0 then 1 else - 1)"
    by (simp add: track_correction_eq)
  then have "autonomous_steering_correction (update_car s dt) =
      (if car_x (integrate s dt) < 0 then 1 else - 1)"
    by (simp add: update_car_def check_boundaries_fields)
  with False show ?thesis by simp
qed

theorem off_track_correction_sign_witness:
  "\<not> fst (is_car_on_track (integrate ((init (Some white20))\<lparr>car_x := 5, car_y := 0\<rparr>) 1))
   \<and> autonomous_steering_correction (update_car ((init (Some white20))\<lparr>car_x := 5, car_y := 0\<rparr>) 1) = - 1
   \<and> \<not> fst (is_car_on_track (integrate ((init (Some white20))\<lparr>car_x := - 5, car_y := 0, manual_mode := False\<rparr>) (1 / 10)))
   \<and> autonomous_steering_correction (update_car ((init (Some white20))\<lparr>car_x := - 5, car_y := 0, manual_mode := False\<rparr>) (1 / 10)) = 1
   \<and> \<not> fst (is_car_on_track (integrate ((init (Some white20))\<lparr>car_x := 0, car_y := 0\<rparr>) 1))
   \<and> autonomous_steering_correction (update_car ((init (Some white20))\<lparr>car_x := 0, car_y := 0\<rparr>) 1) = - 1
   \<and> fst (is_car_on_track (integrate ((init (Some black20))\<lparr>autonomous_steering_correction := 1\<rparr>) 1))
   \<and> autonomous_steering_correction (update_car ((init (Some black20))\<lparr>autonomous_steering_correction := 1\<rparr>) 1) = 1"
  using off_track_correction_sign [of "(init (Some white20))\<lparr>car_x := 5, car_y := 0\<rparr>" 1]
        off_track_correction_sign
          [of "(init (Some white20))\<lparr>car_x := - 5, car_y := 0, manual_mode := False\<rparr>" "1 / 10"]
        off_track_correction_sign [of "(init (Some white20))\<lparr>car_x := 0, car_y := 0\<rparr>" 1]
        off_track_correction_sign [of "(init (Some black20))\<lparr>autonomous_steering_correction := 1\<rparr>" 1]
  by (simp add: init_def white20_def black20_def integrate_def manual_step_def
        run_autonomous_logic_def autonomous_speed_def radians_def is_car_on_track_def
        tex_coord_def py_int_def Let_def)

end
